theory Spec2Isabelle
  imports Complex_Main
begin

section \<open>Data model (types.ts)\<close>

text \<open>
  A TypeScript \<open>number\<close> is modelled as a real number: the arithmetic of the cart is
  exact here, and the special values NaN and Infinity have no counterpart. Amounts
  (subtotal, tax, total) are thus the exact values where the code holds doubles, rounded
  at each operation; nothing below is about the digits of an amount beyond whole numbers
  that a double holds exactly. Optional
  string fields are \<open>string option\<close>; JavaScript treats both an absent and an empty
  string as falsy, which the functions below write out.
\<close>

type_synonym number = real

datatype Role = admin | pharmacist | cashier

datatype Status = active | inactive

record User =
  id_user :: string
  name_user :: string
  email :: string
  role :: Role
  status :: Status

datatype Form = Tablet | Syrup | Injection | Cream | Capsule | Drops | Sachet
  | Ointment | Gel | Equipment | Other

record Product =
  id_product :: number
  name :: string
  genericName :: string
  strength :: string
  form :: Form
  category :: string
  price :: number
  costPrice :: number
  stock :: number
  expiryDate :: string
  barcode :: string
  sku :: string
  batchNumber :: string
  supplier :: string
  packSize :: string
  reorderLevel :: number
  location :: string
  requiresPrescription :: bool
  isNarcotic :: bool
  warningNote :: "string option"

text \<open>\<open>interface CartItem extends Product { quantity: number }\<close>\<close>

record CartItem = Product +
  quantity :: number

datatype PaymentMethod = Cash | Easypaisa | JazzCash

record SaleItem =
  productId :: number
  productName :: string
  quantity_item :: number
  price_item :: number
  costPrice_item :: number
  batchNumber_item :: string
  isNarcotic_item :: bool

record Sale =
  id_sale :: string
  date_sale :: string
  totalAmount :: number
  paymentMethod :: PaymentMethod
  items_sale :: "SaleItem list"
  userId_sale :: string
  userName_sale :: string

record HeldSale =
  id_held :: string
  date_held :: string
  items_held :: "CartItem list"
  total_held :: number
  userId_held :: string
  userName_held :: string
  referenceNote :: "string option"

record AuditLog =
  id_log :: string
  timestamp :: string
  userId_log :: string
  userName_log :: string
  action :: string
  details :: string

datatype Group = general | inventory | billing | system

record AppSetting =
  id_setting :: number
  key :: string
  value_setting :: string
  description :: string
  group :: Group

section \<open>Host values\<close>

text \<open>
  One draw of \<open>Math.random().toString(36).substr(2, 9)\<close> together with
  \<open>new Date().toISOString()\<close>: every handler that creates a record takes the values
  the host returned as an argument.
\<close>

record Stamp =
  rnd :: string
  iso :: string

text \<open>
  The messages of \<open>alert(...)\<close>, in the order the handlers show them:
  \<^item> \<open>ExpiredBatch\<close>: "CRITICAL ERROR: This batch is EXPIRED and cannot be sold."
  \<^item> \<open>CustomNote n w\<close>: "NOTE for n: w"
  \<^item> \<open>InsufficientStock\<close>: "Insufficient stock!"
  \<^item> \<open>CannotExceedStock\<close>: "Cannot exceed available stock."
  \<^item> \<open>CheckoutStockError\<close>: "Error: One or more items have insufficient stock."
  \<^item> \<open>TransactionSuccessful t\<close>: "Transaction Successful! Amount: PKR t"
  \<^item> \<open>SaleOnHold\<close>: "Sale put on hold."
  \<^item> \<open>CannotDeleteProduct\<close>: "Cannot delete product: It has associated sales history. ..."
\<close>

datatype Alert =
    ExpiredBatch
  | CustomNote string string
  | InsufficientStock
  | CannotExceedStock
  | CheckoutStockError
  | TransactionSuccessful number
  | SaleOnHold
  | CannotDeleteProduct

section \<open>Application state and handlers (App component)\<close>

record App =
  user :: "User option"
  products :: "Product list"
  settings :: "AppSetting list"
  sales :: "Sale list"
  heldSales :: "HeldSale list"
  auditLogs :: "AuditLog list"

definition logAction :: "App \<Rightarrow> string \<Rightarrow> string \<Rightarrow> Stamp \<Rightarrow> App" where
  "logAction s act det st =
     (case user s of
        None \<Rightarrow> s
      | Some u \<Rightarrow>
          s\<lparr>auditLogs :=
              \<lparr>id_log = rnd st, timestamp = iso st, userId_log = id_user u,
               userName_log = name_user u, action = act, details = det\<rparr> # auditLogs s\<rparr>)"

definition handleAddProduct :: "App \<Rightarrow> Product \<Rightarrow> Stamp \<Rightarrow> App" where
  "handleAddProduct s newProduct st =
     logAction (s\<lparr>products := products s @ [newProduct]\<rparr>) ''ADD_PRODUCT''
       (''Added product: '' @ name newProduct @ '' ('' @ sku newProduct @ '')'') st"

definition handleDeleteProduct :: "App \<Rightarrow> number \<Rightarrow> Stamp \<Rightarrow> Alert list \<times> App" where
  "handleDeleteProduct s pid st =
     (case find (\<lambda>p. id_product p = pid) (products s) of
        None \<Rightarrow> ([], s)
      | Some product \<Rightarrow>
          if list_ex (\<lambda>sl. list_ex (\<lambda>i. productId i = pid) (items_sale sl)) (sales s)
          then ([CannotDeleteProduct], s)
          else ([], logAction (s\<lparr>products := filter (\<lambda>p. id_product p \<noteq> pid) (products s)\<rparr>)
                      ''DELETE_PRODUCT'' (''Deleted product: '' @ name product) st))"

text \<open>
  The callback of \<open>products.map\<close> in \<open>handleCheckout\<close>: the first component says
  whether the callback set \<open>stockError\<close>, the second is the product it returned.
\<close>

definition deductStock :: "CartItem list \<Rightarrow> Product \<Rightarrow> bool \<times> Product" where
  "deductStock cart p =
     (case find (\<lambda>c. id_product c = id_product p) cart of
        Some cartItem \<Rightarrow>
          if stock p < quantity cartItem then (True, p)
          else (False, p\<lparr>stock := stock p - quantity cartItem\<rparr>)
      | None \<Rightarrow> (False, p))"

definition saleItem :: "CartItem \<Rightarrow> SaleItem" where
  "saleItem c =
     \<lparr>productId = id_product c, productName = name c, quantity_item = quantity c,
      price_item = price c, costPrice_item = costPrice c,
      batchNumber_item = batchNumber c, isNarcotic_item = isNarcotic c\<rparr>"

definition newSale :: "Stamp \<Rightarrow> User \<Rightarrow> CartItem list \<Rightarrow> number \<Rightarrow> PaymentMethod \<Rightarrow> Sale" where
  "newSale st u cart amount method =
     \<lparr>id_sale = rnd st, date_sale = iso st, totalAmount = amount, paymentMethod = method,
      items_sale = map saleItem cart, userId_sale = id_user u, userName_sale = name_user u\<rparr>"

text \<open>
  \<open>handleCheckout\<close> of the App component. \<open>str\<close> is the host's conversion of a number
  to text in the template literal of the audit entry.
\<close>

definition handleCheckout ::
  "(number \<Rightarrow> string) \<Rightarrow> Stamp \<Rightarrow> Stamp \<Rightarrow> App \<Rightarrow> CartItem list \<Rightarrow> number \<Rightarrow> PaymentMethod
     \<Rightarrow> Alert list \<times> App" where
  "handleCheckout str st_sale st_log s cart amount method =
     (case user s of
        None \<Rightarrow> ([], s)
      | Some u \<Rightarrow>
          let stockError = list_ex (\<lambda>p. fst (deductStock cart p)) (products s);
              updatedProducts = map (\<lambda>p. snd (deductStock cart p)) (products s)
          in if stockError then ([CheckoutStockError], s)
             else
               let sale = newSale st_sale u cart amount method
               in ([], logAction (s\<lparr>products := updatedProducts, sales := sale # sales s\<rparr>)
                         ''SALE_COMPLETED''
                         (''Sale ID: '' @ id_sale sale @ '', Total: '' @ str amount) st_log))"

text \<open>
  \<open>note || `Held at ...`\<close>: an absent or empty note gives the default, built from
  the host's \<open>toLocaleTimeString()\<close>, here \<open>localeTime\<close>.
\<close>

definition handleHoldSale ::
  "Stamp \<Rightarrow> string \<Rightarrow> App \<Rightarrow> CartItem list \<Rightarrow> number \<Rightarrow> string option \<Rightarrow> App" where
  "handleHoldSale st localeTime s cart amount note =
     (case user s of
        None \<Rightarrow> s
      | Some u \<Rightarrow>
          s\<lparr>heldSales :=
              \<lparr>id_held = rnd st, date_held = iso st, items_held = cart, total_held = amount,
               userId_held = id_user u, userName_held = name_user u,
               referenceNote =
                 Some (case note of
                         None \<Rightarrow> ''Held at '' @ localeTime
                       | Some n \<Rightarrow> if n = [] then ''Held at '' @ localeTime else n)\<rparr>
              # heldSales s\<rparr>)"

definition handleResumeSale :: "App \<Rightarrow> string \<Rightarrow> App" where
  "handleResumeSale s hid = s\<lparr>heldSales := filter (\<lambda>h. id_held h \<noteq> hid) (heldSales s)\<rparr>"

section \<open>Point of sale (POS component)\<close>

record POS =
  cart :: "CartItem list"
  paymentMethod_pos :: PaymentMethod
  isProcessing :: bool
  showHeldModal :: bool

text \<open>
  \<open>Number(settings.find(s => s.key === k)?.value || d)\<close>: a missing setting and an
  empty value both give the default; \<open>toNumber\<close> is the host's \<open>Number\<close> on strings.
\<close>

definition settingNumber :: "(string \<Rightarrow> number) \<Rightarrow> AppSetting list \<Rightarrow> string \<Rightarrow> number \<Rightarrow> number" where
  "settingNumber toNumber ss k d =
     (case find (\<lambda>s. key s = k) ss of
        None \<Rightarrow> d
      | Some s \<Rightarrow> if value_setting s = [] then d else toNumber (value_setting s))"

definition taxRate :: "(string \<Rightarrow> number) \<Rightarrow> AppSetting list \<Rightarrow> number" where
  "taxRate toNumber ss = settingNumber toNumber ss ''tax_rate'' 0"

definition subtotal :: "CartItem list \<Rightarrow> number" where
  "subtotal c = foldl (\<lambda>sum item. sum + price item * quantity item) 0 c"

definition taxAmount :: "(string \<Rightarrow> number) \<Rightarrow> AppSetting list \<Rightarrow> CartItem list \<Rightarrow> number" where
  "taxAmount toNumber ss c = (subtotal c * taxRate toNumber ss) / 100"

definition total_cart :: "(string \<Rightarrow> number) \<Rightarrow> AppSetting list \<Rightarrow> CartItem list \<Rightarrow> number" where
  "total_cart toNumber ss c = subtotal c + taxAmount toNumber ss c"

text \<open>The spread \<open>{ ...product, quantity: q }\<close>.\<close>

definition cartItem :: "Product \<Rightarrow> number \<Rightarrow> CartItem" where
  "cartItem p q = Product.extend p (CartItem.fields q)"

text \<open>
  \<open>addToCart\<close>. \<open>dateTime\<close> is the host's parse of a date string to a time value
  (\<open>None\<close> for an invalid date, which compares false), \<open>today\<close> the time value of
  \<open>new Date()\<close>, and \<open>proceed\<close> the answer of \<open>window.confirm\<close>, read only for a
  product that requires a prescription. \<open>expired\<close> is the test \<open>expiry < today\<close>.
\<close>

definition expired :: "(string \<Rightarrow> number option) \<Rightarrow> number \<Rightarrow> 'a Product_scheme \<Rightarrow> bool" where
  "expired dateTime today product =
     (case dateTime (expiryDate product) of None \<Rightarrow> False | Some expiry \<Rightarrow> expiry < today)"

definition addToCart ::
  "(string \<Rightarrow> number option) \<Rightarrow> number \<Rightarrow> bool \<Rightarrow> Product \<Rightarrow> CartItem list
     \<Rightarrow> Alert list \<times> CartItem list" where
  "addToCart dateTime today proceed product currentCart =
     (if expired dateTime today product then ([ExpiredBatch], currentCart)
      else if requiresPrescription product \<and> \<not> proceed then ([], currentCart)
      else
        let notes = (case warningNote product of
                       None \<Rightarrow> []
                     | Some w \<Rightarrow> if w = [] then [] else [CustomNote (name product) w]);
            existingItem = find (\<lambda>item. id_product item = id_product product) currentCart;
            currentQty = (case existingItem of None \<Rightarrow> 0 | Some e \<Rightarrow> quantity e)
        in if currentQty + 1 > stock product then (notes @ [InsufficientStock], currentCart)
           else
             (case existingItem of
                Some e \<Rightarrow>
                  (notes,
                   map (\<lambda>item. if id_product item = id_product product
                                then item\<lparr>quantity := quantity item + 1\<rparr> else item)
                     currentCart)
              | None \<Rightarrow>
                  (notes, currentCart @ [cartItem product 1])))"

text \<open>The callback of \<open>currentCart.map\<close> in \<open>updateQuantity\<close>, with the alert it shows.\<close>

definition updateItem :: "Product list \<Rightarrow> number \<Rightarrow> number \<Rightarrow> CartItem \<Rightarrow> Alert list \<times> CartItem" where
  "updateItem ps pid delta item =
     (if id_product item = pid then
        (case find (\<lambda>p. id_product p = pid) ps of
           Some product \<Rightarrow>
             if quantity item + delta > stock product then ([CannotExceedStock], item)
             else ([], item\<lparr>quantity := max 0 (quantity item + delta)\<rparr>)
         | None \<Rightarrow> ([], item\<lparr>quantity := max 0 (quantity item + delta)\<rparr>))
      else ([], item))"

definition updateQuantity ::
  "Product list \<Rightarrow> number \<Rightarrow> number \<Rightarrow> CartItem list \<Rightarrow> Alert list \<times> CartItem list" where
  "updateQuantity ps pid delta currentCart =
     (concat (map (\<lambda>item. fst (updateItem ps pid delta item)) currentCart),
      filter (\<lambda>item. quantity item > 0)
        (map (\<lambda>item. snd (updateItem ps pid delta item)) currentCart))"

definition removeFromCart :: "number \<Rightarrow> CartItem list \<Rightarrow> CartItem list" where
  "removeFromCart pid currentCart = filter (\<lambda>item. id_product item \<noteq> pid) currentCart"

text \<open>
  \<open>handleCheckout\<close> of the POS component; the 500 ms timer is taken as elapsed.
  \<open>onCheckout\<close> returns nothing, so what follows the call does not depend on it.
\<close>

definition handleCheckout_POS ::
  "(string \<Rightarrow> number) \<Rightarrow> (number \<Rightarrow> string) \<Rightarrow> Stamp \<Rightarrow> Stamp \<Rightarrow> App \<Rightarrow> POS
     \<Rightarrow> Alert list \<times> App \<times> POS" where
  "handleCheckout_POS toNumber str st_sale st_log s pos =
     (if cart pos = [] then ([], s, pos)
      else
        let t = total_cart toNumber (settings s) (cart pos);
            (alerts, s') = handleCheckout str st_sale st_log s (cart pos) t (paymentMethod_pos pos)
        in (alerts @ [TransactionSuccessful t], s',
            pos\<lparr>cart := [], paymentMethod_pos := Cash, isProcessing := False\<rparr>))"

definition handleHold ::
  "(string \<Rightarrow> number) \<Rightarrow> Stamp \<Rightarrow> string \<Rightarrow> App \<Rightarrow> POS \<Rightarrow> Alert list \<times> App \<times> POS" where
  "handleHold toNumber st localeTime s pos =
     (if cart pos = [] then ([], s, pos)
      else ([SaleOnHold],
            handleHoldSale st localeTime s (cart pos) (total_cart toNumber (settings s) (cart pos)) None,
            pos\<lparr>cart := []\<rparr>))"

definition handleResume :: "App \<Rightarrow> POS \<Rightarrow> HeldSale \<Rightarrow> App \<times> POS" where
  "handleResume s pos held =
     (handleResumeSale s (id_held held), pos\<lparr>cart := items_held held, showHeldModal := False\<rparr>)"

section \<open>Inventory and Dashboard\<close>

text \<open>
  \<open>handleDelete\<close> of the Inventory page: only an administrator deletes, after
  confirming; \<open>confirmed\<close> is the answer of \<open>window.confirm\<close>.
\<close>

definition handleDelete :: "App \<Rightarrow> number \<Rightarrow> bool \<Rightarrow> Stamp \<Rightarrow> Alert list \<times> App" where
  "handleDelete s pid confirmed st =
     (case user s of
        None \<Rightarrow> ([], s)
      | Some u \<Rightarrow>
          if role u \<noteq> admin then ([], s)
          else if confirmed then handleDeleteProduct s pid st else ([], s))"

definition lowStockLimit :: "(string \<Rightarrow> number) \<Rightarrow> AppSetting list \<Rightarrow> number" where
  "lowStockLimit toNumber ss = settingNumber toNumber ss ''low_stock_limit_default'' 5"

text \<open>\<open>p.stock <= (p.reorderLevel || lowStockLimit)\<close>: a reorder level of 0 is falsy.\<close>

definition lowStock :: "number \<Rightarrow> Product \<Rightarrow> bool" where
  "lowStock limit p = (stock p \<le> (if reorderLevel p = 0 then limit else reorderLevel p))"

definition lowStockCount :: "(string \<Rightarrow> number) \<Rightarrow> AppSetting list \<Rightarrow> Product list \<Rightarrow> nat" where
  "lowStockCount toNumber ss ps = length (filter (lowStock (lowStockLimit toNumber ss)) ps)"

section \<open>Example data\<close>

text \<open>A catalog entry used by the scenarios below; each scenario sets the fields it needs.\<close>

definition product0 :: Product where
  "product0 =
     \<lparr>id_product = 1, name = ''Panadol'', genericName = ''Paracetamol'', strength = ''500mg'',
      form = Tablet, category = ''Analgesics'', price = 100, costPrice = 80, stock = 1,
      expiryDate = ''2030-01-01'', barcode = ''0001'', sku = ''PAN-500'',
      batchNumber = ''B1'', supplier = ''GSK'', packSize = ''Box of 10'', reorderLevel = 3,
      location = ''A1'', requiresPrescription = False, isNarcotic = False,
      warningNote = None\<rparr>"

definition admin0 :: User where
  "admin0 =
     \<lparr>id_user = ''u1'', name_user = ''Ali'', email = ''ali@example.com'', role = admin,
      status = active\<rparr>"

definition setting :: "string \<Rightarrow> string \<Rightarrow> AppSetting" where
  "setting k v = \<lparr>id_setting = 1, key = k, value_setting = v, description = [], group = billing\<rparr>"

text \<open>The host's \<open>Number\<close> on the two strings the scenarios use.\<close>

definition number0 :: "string \<Rightarrow> number" where
  "number0 v = (if v = ''17'' then 17 else if v = ''5'' then 5 else 0)"

text \<open>An expired narcotic that requires a prescription.\<close>

definition controlled0 :: Product where
  "controlled0 =
     product0\<lparr>expiryDate := ''2020-01-01'', requiresPrescription := True, isNarcotic := True\<rparr>"

text \<open>The first product as one that requires a prescription.\<close>

definition rx0 :: Product where
  "rx0 = product0\<lparr>requiresPrescription := True\<rparr>"

definition product2 :: Product where
  "product2 = product0\<lparr>id_product := 2, name := ''Brufen'', stock := 1\<rparr>"

definition app0 :: App where
  "app0 =
     \<lparr>user = Some admin0, products = [product0\<lparr>stock := 5\<rparr>, product2],
      settings = [setting ''tax_rate'' ''17''], sales = [], heldSales = [], auditLogs = []\<rparr>"

definition stamp0 :: Stamp where
  "stamp0 = \<lparr>rnd = ''k3j9x2m1q'', iso = ''2026-01-01T10:00:00.000Z''\<rparr>"

text \<open>The host's date parse on the two dates the scenarios use, and the time of the scenarios.\<close>

definition dateTime0 :: "string \<Rightarrow> number option" where
  "dateTime0 d =
     (if d = ''2030-01-01'' then Some 1893456000000
      else if d = ''2020-01-01'' then Some 1577836800000 else None)"

definition today0 :: number where
  "today0 = 1793577600000"

definition pos0 :: POS where
  "pos0 = \<lparr>cart = [], paymentMethod_pos = Cash, isProcessing = False, showHeldModal = False\<rparr>"

definition app1 :: App where
  "app1 =
     \<lparr>user = Some admin0, products = [product0], settings = [setting ''tax_rate'' ''17''],
      sales = [], heldSales = [], auditLogs = []\<rparr>"

text \<open>A held sale that is in no registry below unless put there.\<close>

definition held0 :: HeldSale where
  "held0 =
     \<lparr>id_held = ''h7f3k2p9a'', date_held = ''2026-01-01T09:00:00.000Z'',
      items_held = [cartItem product0 1], total_held = 117, userId_held = ''u1'',
      userName_held = ''Ali'', referenceNote = Some ''Held at 9:00:00 AM''\<rparr>"

text \<open>
  An administrator holds a sale, deletes its product in the inventory (the product has no
  sales history, so the deletion is allowed), resumes the sale and checks it out.
\<close>

definition held_then_deleted :: "Alert list \<times> App \<times> POS" where
  "held_then_deleted =
     (let cart1 = snd (addToCart dateTime0 today0 False product0 []);
          (a2, s2, pos2) = handleHold number0 stamp0 ''10:00:00 AM'' app1 (pos0\<lparr>cart := cart1\<rparr>);
          (a3, s3) = handleDelete s2 (id_product product0) True stamp0;
          (s4, pos4) = handleResume s3 pos2 (hd (heldSales s3))
      in handleCheckout_POS number0 (\<lambda>n. []) stamp0 stamp0 s4 pos4)"

text \<open>
  The same with a cart of two lines, of which only the first line's product is deleted.
\<close>

definition held_then_deleted_one_of_two :: "Alert list \<times> App \<times> POS" where
  "held_then_deleted_one_of_two =
     (let cart1 = snd (addToCart dateTime0 today0 False (product0\<lparr>stock := 5\<rparr>) []);
          cart2 = snd (addToCart dateTime0 today0 False product2 cart1);
          (a2, s2, pos2) = handleHold number0 stamp0 ''10:00:00 AM'' app0 (pos0\<lparr>cart := cart2\<rparr>);
          (a3, s3) = handleDelete s2 (id_product product0) True stamp0;
          (s4, pos4) = handleResume s3 pos2 (hd (heldSales s3))
      in handleCheckout_POS number0 (\<lambda>n. []) stamp0 stamp0 s4 pos4)"

text \<open>
  A sale of the last unit is held, the unit is sold in another sale, the held sale is
  resumed and checked out. The result keeps the state before the second checkout.
\<close>

definition stale_checkout :: "App \<times> POS \<times> Alert list \<times> App \<times> POS" where
  "stale_checkout =
     (let cart1 = snd (addToCart dateTime0 today0 False product0 []);
          (a2, s2, pos2) = handleHold number0 stamp0 ''10:00:00 AM'' app1 (pos0\<lparr>cart := cart1\<rparr>);
          cart3 = snd (addToCart dateTime0 today0 False (hd (products s2)) (cart pos2));
          (a4, s4, pos4) = handleCheckout_POS number0 (\<lambda>n. []) stamp0 stamp0 s2 (pos2\<lparr>cart := cart3\<rparr>);
          (s5, pos5) = handleResume s4 pos4 (hd (heldSales s4))
      in (s5, pos5, handleCheckout_POS number0 (\<lambda>n. []) stamp0 stamp0 s5 pos5))"

section \<open>Predicates of the properties\<close>

text \<open>
  Some line of the cart asks for more than the stock of a catalog product with the
  line's id.
\<close>

definition shortfall :: "CartItem list \<Rightarrow> Product list \<Rightarrow> bool" where
  "shortfall lines ps =
     (\<exists>c\<in>set lines. \<exists>p\<in>set ps. id_product p = id_product c \<and> stock p < quantity c)"

text \<open>
  A product or cart line with its expiry date, prescription flag and narcotic flag
  replaced; every other field, the id, the stock and the quantity among them, is kept.
\<close>

definition regate ::
  "('a Product_scheme \<Rightarrow> string) \<Rightarrow> ('a Product_scheme \<Rightarrow> bool) \<Rightarrow> ('a Product_scheme \<Rightarrow> bool)
     \<Rightarrow> 'a Product_scheme \<Rightarrow> 'a Product_scheme" where
  "regate e r n p = p\<lparr>expiryDate := e p, requiresPrescription := r p, isNarcotic := n p\<rparr>"

text \<open>
  The carts the POS builds: one line per product id, every quantity positive. The cart
  starts empty; adding, adjusting and removing keep both, and a resumed cart is a cart
  that was held.
\<close>

definition cart_ok :: "CartItem list \<Rightarrow> bool" where
  "cart_ok c = (distinct (map id_product c) \<and> list_all (\<lambda>item. quantity item > 0) c)"

section \<open>Lookup by id\<close>


lemma find_distinct_key:
  "distinct (map f xs) \<Longrightarrow> x \<in> set xs \<Longrightarrow> find (\<lambda>y. f y = f x) xs = Some x"
  by (induction xs) (auto simp: image_iff)

lemma find_no_key: "(\<forall>x\<in>set xs. f x \<noteq> k) \<Longrightarrow> find (\<lambda>y. f y = k) xs = None"
  by (induction xs) auto

lemma deductStock_line:
  assumes "distinct (map id_product lines)" "c \<in> set lines" "id_product c = id_product p"
  shows "deductStock lines p =
           (if stock p < quantity c then (True, p) else (False, p\<lparr>stock := stock p - quantity c\<rparr>))"
proof -
  have "find (\<lambda>y. id_product y = id_product c) lines = Some c"
    using assms(1,2) by (rule find_distinct_key)
  then show ?thesis using assms(3) by (simp add: deductStock_def)
qed

lemma deductStock_no_line:
  "(\<forall>c\<in>set lines. id_product c \<noteq> id_product p) \<Longrightarrow> deductStock lines p = (False, p)"
  by (simp add: deductStock_def find_no_key)

lemma deductStock_flag:
  assumes "distinct (map id_product lines)"
  shows "fst (deductStock lines p)
           = (\<exists>c\<in>set lines. id_product p = id_product c \<and> stock p < quantity c)"
proof (cases "\<exists>c\<in>set lines. id_product c = id_product p")
  case True
  then obtain c where c: "c \<in> set lines" "id_product c = id_product p" by blast
  have f: "find (\<lambda>y. id_product y = id_product p) lines = Some c"
    using find_distinct_key [OF assms c(1)] c(2) by simp
  have uniq: "c' = c" if "c' \<in> set lines" "id_product p = id_product c'" for c'
    using find_distinct_key [OF assms that(1)] that(2) f by simp
  have "fst (deductStock lines p) = (stock p < quantity c)"
    using f by (simp add: deductStock_def)
  also have "\<dots> = (\<exists>c\<in>set lines. id_product p = id_product c \<and> stock p < quantity c)"
  proof
    assume "stock p < quantity c"
    then have "id_product p = id_product c \<and> stock p < quantity c" using c(2) by simp
    then show "\<exists>c\<in>set lines. id_product p = id_product c \<and> stock p < quantity c"
      using c(1) by (rule bexI)
  next
    assume "\<exists>c\<in>set lines. id_product p = id_product c \<and> stock p < quantity c"
    then obtain c' where c': "c' \<in> set lines" "id_product p = id_product c'" "stock p < quantity c'"
      by (elim bexE conjE)
    then show "stock p < quantity c" using uniq [OF c'(1,2)] by simp
  qed
  finally show ?thesis .
next
  case False
  then have "fst (deductStock lines p) = False"
    by (simp add: deductStock_no_line)
  then show ?thesis using False by metis
qed

lemma stockError_iff:
  assumes "distinct (map id_product lines)"
  shows "list_ex (\<lambda>p. fst (deductStock lines p)) ps = shortfall lines ps"
  unfolding list_ex_iff shortfall_def deductStock_flag [OF assms] by blast

lemma cartItem_fields [simp]:
  "quantity (cartItem p q) = q"
  "id_product (cartItem p q) = id_product p"
  "stock (cartItem p q) = stock p"
  "price (cartItem p q) = price p"
  "Product.truncate (cartItem p q) = p"
  by (simp_all add: cartItem_def Product.defs CartItem.defs)

lemma logAction_fields [simp]:
  "products (logAction s a d st) = products s"
  "sales (logAction s a d st) = sales s"
  "heldSales (logAction s a d st) = heldSales s"
  "settings (logAction s a d st) = settings s"
  "user (logAction s a d st) = user s"
  by (simp_all add: logAction_def split: option.split)

section \<open>Evaluation of the example data\<close>

lemma product0_fields:
  "id_product product0 = 1" "stock product0 = 1" "price product0 = 100"
  "expiryDate product0 = ''2030-01-01''" "requiresPrescription product0 = False"
  "warningNote product0 = None" "name product0 = ''Panadol''"
  by (simp_all add: product0_def)

lemma add_first: "addToCart dateTime0 today0 False product0 [] = ([], [cartItem product0 1])"
  by (simp add: addToCart_def expired_def dateTime0_def today0_def product0_fields)

lemma total_one: "total_cart number0 [setting ''tax_rate'' ''17''] [cartItem product0 1] = 117"
  by (simp add: total_cart_def taxAmount_def subtotal_def taxRate_def settingNumber_def
      setting_def number0_def product0_fields)

lemma product2_fields:
  "id_product product2 = 2" "stock product2 = 1"
  by (simp_all add: product2_def)

section \<open>Checkout and the sale gates\<close>

lemma find_map: "find P (map g xs) = map_option g (find (\<lambda>x. P (g x)) xs)"
  by (induction xs) simp_all

lemma regate_fields [simp]:
  "id_product (regate e r n p) = id_product p"
  "stock (regate e r n p) = stock p"
  by (simp_all add: regate_def)

lemma regate_quantity [simp]: "quantity (regate e r n c) = quantity c"
  by (simp add: regate_def)

lemma deductStock_regate:
  "fst (deductStock (map (regate e' r' n') lines) (regate e r n p)) = fst (deductStock lines p)"
  "stock (snd (deductStock (map (regate e' r' n') lines) (regate e r n p)))
     = stock (snd (deductStock lines p))"
  by (simp_all add: deductStock_def find_map split: option.split)

lemma handleCheckout_regate:
  "fst (handleCheckout str a b (s\<lparr>products := map (regate e r n) (products s)\<rparr>)
          (map (regate e' r' n') lines) amount method)
     = fst (handleCheckout str a b s lines amount method)"
  "map stock (products (snd (handleCheckout str a b (s\<lparr>products := map (regate e r n) (products s)\<rparr>)
          (map (regate e' r' n') lines) amount method)))
     = map stock (products (snd (handleCheckout str a b s lines amount method)))"
  by (simp_all add: handleCheckout_def Let_def list_ex_iff deductStock_regate o_def
      split: option.split)


lemma cartItem_gate_fields [simp]:
  "expiryDate (cartItem p q) = expiryDate p"
  "requiresPrescription (cartItem p q) = requiresPrescription p"
  "isNarcotic (cartItem p q) = isNarcotic p"
  "name (cartItem p q) = name p"
  by (simp_all add: cartItem_def Product.defs CartItem.defs)

lemma controlled0_fields:
  "id_product controlled0 = 1" "stock controlled0 = 1" "price controlled0 = 100"
  "expiryDate controlled0 = ''2020-01-01''" "requiresPrescription controlled0"
  "isNarcotic controlled0"
  by (simp_all add: controlled0_def product0_def)

section \<open>Adding to the cart\<close>

lemma find_at_split:
  "\<forall>x\<in>set xs. f x \<noteq> k \<Longrightarrow> f e = k \<Longrightarrow> find (\<lambda>y. f y = k) (xs @ e # ys) = Some e"
  by (induction xs) simp_all

lemma map_at_split:
  "\<forall>x\<in>set xs. f x \<noteq> k \<Longrightarrow> \<forall>y\<in>set ys. f y \<noteq> k \<Longrightarrow> f e = k \<Longrightarrow>
     map (\<lambda>item. if f item = k then g item else item) (xs @ e # ys) = xs @ g e # ys"
  by (simp add: map_idI)

lemma addToCart_expired:
  "expired dateTime today p \<Longrightarrow> addToCart dateTime today proceed p c = ([ExpiredBatch], c)"
  by (simp add: addToCart_def)

lemma addToCart_declined:
  "\<not> expired dateTime today p \<Longrightarrow> requiresPrescription p \<Longrightarrow> \<not> proceed \<Longrightarrow>
     addToCart dateTime today proceed p c = ([], c)"
  by (simp add: addToCart_def)

lemma addToCart_existing:
  assumes "\<not> expired dateTime today p" "requiresPrescription p \<longrightarrow> proceed"
    and "\<forall>x\<in>set xs. id_product x \<noteq> id_product p" "\<forall>y\<in>set ys. id_product y \<noteq> id_product p"
    and "id_product e = id_product p"
  shows "snd (addToCart dateTime today proceed p (xs @ e # ys)) =
           (if quantity e + 1 > stock p then xs @ e # ys
            else xs @ e\<lparr>quantity := quantity e + 1\<rparr> # ys)"
    and "quantity e + 1 > stock p \<Longrightarrow>
           InsufficientStock \<in> set (fst (addToCart dateTime today proceed p (xs @ e # ys)))"
proof -
  have f: "find (\<lambda>item. id_product item = id_product p) (xs @ e # ys) = Some e"
    using assms(3,5) by (rule find_at_split)
  have m: "map (\<lambda>item. if id_product item = id_product p
                        then item\<lparr>quantity := quantity item + 1\<rparr> else item) (xs @ e # ys)
             = xs @ e\<lparr>quantity := quantity e + 1\<rparr> # ys"
    using assms(3,4,5) by (rule map_at_split)
  show "snd (addToCart dateTime today proceed p (xs @ e # ys)) =
           (if quantity e + 1 > stock p then xs @ e # ys
            else xs @ e\<lparr>quantity := quantity e + 1\<rparr> # ys)"
    using assms(1,2) unfolding addToCart_def Let_def f m by auto
  show "InsufficientStock \<in> set (fst (addToCart dateTime today proceed p (xs @ e # ys)))"
    if "quantity e + 1 > stock p"
    using assms(1,2) that unfolding addToCart_def Let_def f by auto
qed

lemma addToCart_new:
  assumes "\<not> expired dateTime today p" "requiresPrescription p \<longrightarrow> proceed"
    and "\<forall>x\<in>set c. id_product x \<noteq> id_product p"
  shows "snd (addToCart dateTime today proceed p c) =
           (if 1 > stock p then c else c @ [cartItem p 1])"
    and "1 > stock p \<Longrightarrow> InsufficientStock \<in> set (fst (addToCart dateTime today proceed p c))"
proof -
  have f: "find (\<lambda>item. id_product item = id_product p) c = None"
    using assms(3) by (rule find_no_key)
  show "snd (addToCart dateTime today proceed p c) =
           (if 1 > stock p then c else c @ [cartItem p 1])"
    using assms(1,2) unfolding addToCart_def Let_def f by auto
  show "InsufficientStock \<in> set (fst (addToCart dateTime today proceed p c))" if "1 > stock p"
    using assms(1,2) that unfolding addToCart_def Let_def f by auto
qed


section \<open>Adjusting a quantity\<close>

lemma updateItem_other:
  "id_product x \<noteq> pid \<Longrightarrow> updateItem ps pid delta x = ([], x)"
  by (simp add: updateItem_def)

lemma updateQuantity_others:
  assumes "\<forall>x\<in>set xs. id_product x \<noteq> pid \<and> quantity x > 0"
  shows "concat (map (\<lambda>item. fst (updateItem ps pid delta item)) xs) = []"
    and "filter (\<lambda>item. quantity item > 0) (map (\<lambda>item. snd (updateItem ps pid delta item)) xs) = xs"
proof -
  have "map (\<lambda>item. fst (updateItem ps pid delta item)) xs = map (\<lambda>item. []) xs"
    using assms by (intro map_cong refl) (simp add: updateItem_other)
  then show "concat (map (\<lambda>item. fst (updateItem ps pid delta item)) xs) = []"
    by simp
  have "map (\<lambda>item. snd (updateItem ps pid delta item)) xs = xs"
    using assms by (intro map_idI) (simp add: updateItem_other)
  then show "filter (\<lambda>item. quantity item > 0) (map (\<lambda>item. snd (updateItem ps pid delta item)) xs) = xs"
    using assms by (simp add: filter_id_conv)
qed

lemma updateQuantity_split:
  assumes "\<forall>x\<in>set xs. id_product x \<noteq> pid \<and> quantity x > 0"
    and "\<forall>y\<in>set ys. id_product y \<noteq> pid \<and> quantity y > 0"
  shows "updateQuantity ps pid delta (xs @ e # ys) =
           (fst (updateItem ps pid delta e),
            xs @ (if quantity (snd (updateItem ps pid delta e)) > 0
                  then [snd (updateItem ps pid delta e)] else []) @ ys)"
  unfolding updateQuantity_def
  by (simp add: updateQuantity_others [OF assms(1)] updateQuantity_others [OF assms(2)])

section \<open>Hold and resume\<close>

lemma handleHoldSale_user:
  "user s = Some u \<Longrightarrow>
     handleHoldSale st localeTime s c amount None =
       s\<lparr>heldSales :=
           \<lparr>id_held = rnd st, date_held = iso st, items_held = c, total_held = amount,
            userId_held = id_user u, userName_held = name_user u,
            referenceNote = Some (''Held at '' @ localeTime)\<rparr> # heldSales s\<rparr>"
  by (simp add: handleHoldSale_def)

lemma handleResumeSale_unknown:
  "\<forall>h\<in>set (heldSales s). id_held h \<noteq> hid \<Longrightarrow> handleResumeSale s hid = s"
proof -
  assume "\<forall>h\<in>set (heldSales s). id_held h \<noteq> hid"
  then have "filter (\<lambda>h. id_held h \<noteq> hid) (heldSales s) = heldSales s"
    by (simp add: filter_id_conv)
  then show ?thesis by (simp add: handleResumeSale_def)
qed

lemma handleResumeSale_fields [simp]:
  "heldSales (handleResumeSale s hid) = filter (\<lambda>h. id_held h \<noteq> hid) (heldSales s)"
  "products (handleResumeSale s hid) = products s"
  "sales (handleResumeSale s hid) = sales s"
  "settings (handleResumeSale s hid) = settings s"
  "user (handleResumeSale s hid) = user s"
  by (simp_all add: handleResumeSale_def)

lemma handleResume_parts [simp]:
  "fst (handleResume s pos held) = handleResumeSale s (id_held held)"
  "cart (snd (handleResume s pos held)) = items_held held"
  by (simp_all add: handleResume_def)

section \<open>The carts the POS builds\<close>

lemma find_None_key: "find (\<lambda>y. f y = k) xs = None \<Longrightarrow> k \<notin> f ` set xs"
  by (induction xs) (auto split: if_splits)

lemma cart_ok_addToCart:
  assumes "cart_ok c"
  shows "cart_ok (snd (addToCart dateTime today proceed p c))"
proof (cases "find (\<lambda>item. id_product item = id_product p) c")
  case None
  then have "id_product p \<notin> id_product ` set c" by (rule find_None_key)
  then have "cart_ok (c @ [cartItem p 1])"
    using assms by (simp add: cart_ok_def)
  then show ?thesis
    using assms None by (simp add: addToCart_def Let_def)
next
  case (Some e)
  let ?inc = "\<lambda>item. if id_product item = id_product p
                      then item\<lparr>quantity := quantity item + 1\<rparr> else item"
  have ids: "map id_product (map ?inc c) = map id_product c"
    by (induction c) simp_all
  have d: "distinct (map id_product (map ?inc c))"
    unfolding ids using assms by (simp add: cart_ok_def)
  have "list_all (\<lambda>item. quantity item > 0) (map ?inc c)"
    using assms by (induction c) (simp_all add: cart_ok_def)
  then have "cart_ok (map ?inc c)"
    unfolding cart_ok_def using d by (rule conjI [rotated])
  then show ?thesis
    using assms Some by (simp add: addToCart_def Let_def)
qed

lemma cart_ok_updateQuantity:
  assumes "cart_ok c"
  shows "cart_ok (snd (updateQuantity ps pid delta c))"
proof -
  have ids: "map id_product (map (\<lambda>item. snd (updateItem ps pid delta item)) c) = map id_product c"
    by (induction c) (simp_all add: updateItem_def split: option.split)
  have "distinct (map id_product (map (\<lambda>item. snd (updateItem ps pid delta item)) c))"
    unfolding ids using assms by (simp add: cart_ok_def)
  then have "distinct (map id_product (filter (\<lambda>item. quantity item > 0)
               (map (\<lambda>item. snd (updateItem ps pid delta item)) c)))"
    by (rule distinct_map_filter)
  then show ?thesis
    by (simp add: cart_ok_def updateQuantity_def list_all_iff)
qed

lemma cart_ok_removeFromCart: "cart_ok c \<Longrightarrow> cart_ok (removeFromCart pid c)"
  by (simp add: cart_ok_def removeFromCart_def distinct_map_filter list_all_iff)

lemma cart_ok_empty: "cart_ok []"
  by (simp add: cart_ok_def)

lemma cart_ok_distinct: "cart_ok c \<Longrightarrow> distinct (map id_product c)"
  by (simp add: cart_ok_def)

section \<open>Low stock\<close>

text \<open>
  C9. A product is low on stock exactly when its stock is at most its reorder level,
  or at most the default limit when the reorder level is 0. The default limit is the
  number of the setting \<open>low_stock_limit_default\<close>, and 5 when that setting is absent
  or its value is empty.
  Reorder level 3 with stock 3 is low, with stock 4 it is not. The Dashboard counts
  the products of the catalog that satisfy the predicate.
\<close>

theorem lowStock_predicate:
  "(reorderLevel p \<noteq> 0 \<longrightarrow> lowStock limit p = (stock p \<le> reorderLevel p))
   \<and> (reorderLevel p = 0 \<longrightarrow> lowStock limit p = (stock p \<le> limit))
   \<and> (reorderLevel p = 3 \<and> stock p = 3 \<longrightarrow> lowStock limit p)
   \<and> (reorderLevel p = 3 \<and> stock p = 4 \<longrightarrow> \<not> lowStock limit p)
   \<and> (find (\<lambda>s. key s = ''low_stock_limit_default'') ss = None \<longrightarrow> lowStockLimit toNumber ss = 5)
   \<and> (\<forall>s. find (\<lambda>s. key s = ''low_stock_limit_default'') ss = Some s \<longrightarrow>
          lowStockLimit toNumber ss
            = (if value_setting s = [] then 5 else toNumber (value_setting s)))
   \<and> lowStockCount toNumber ss ps
       = card {i. i < length ps \<and> lowStock (lowStockLimit toNumber ss) (ps ! i)}"
proof -
  have "length (filter P ps) = card {i. i < length ps \<and> P (ps ! i)}" for P :: "Product \<Rightarrow> bool"
    by (rule length_filter_conv_card)
  then show ?thesis
    by (simp add: lowStock_def lowStockLimit_def settingNumber_def lowStockCount_def)
qed

theorem lowStock_predicate_witness:
  "lowStock 5 (product0\<lparr>reorderLevel := 3, stock := 3\<rparr>)
   \<and> \<not> lowStock 5 (product0\<lparr>reorderLevel := 3, stock := 4\<rparr>)
   \<and> lowStock 5 (product0\<lparr>reorderLevel := 0, stock := 4\<rparr>)
   \<and> \<not> lowStock 5 (product0\<lparr>reorderLevel := 0, stock := 6\<rparr>)
   \<and> lowStockLimit number0 [] = 5
   \<and> lowStockLimit number0 [setting ''low_stock_limit_default'' ''17''] = 17
   \<and> lowStockLimit number0 [setting ''low_stock_limit_default'' []] = 5
   \<and> lowStock (lowStockLimit number0 [setting ''low_stock_limit_default'' ''17''])
         (product0\<lparr>reorderLevel := 0, stock := 10\<rparr>)
   \<and> \<not> lowStock (lowStockLimit number0 []) (product0\<lparr>reorderLevel := 0, stock := 10\<rparr>)
   \<and> lowStockCount number0 [] [product0\<lparr>reorderLevel := 0, stock := 4\<rparr>] = 1"
proof -
  let ?ss = "[setting ''low_stock_limit_default'' ''17'']"
  let ?se = "[setting ''low_stock_limit_default'' []]"
  have count: "lowStockCount number0 [] [product0\<lparr>reorderLevel := 0, stock := 4\<rparr>] = 1"
    by (simp add: lowStockCount_def lowStockLimit_def settingNumber_def lowStock_def)
  have f: "find (\<lambda>s. key s = ''low_stock_limit_default'') ?ss
             = Some (setting ''low_stock_limit_default'' ''17'')"
    "find (\<lambda>s. key s = ''low_stock_limit_default'') ?se
             = Some (setting ''low_stock_limit_default'' [])"
    by (simp_all add: setting_def)
  have l17: "lowStockLimit number0 ?ss = 17"
    using lowStock_predicate [of product0 5 ?ss number0 "[]"] f(1)
    by (simp add: setting_def number0_def)
  have le: "lowStockLimit number0 ?se = 5"
    using lowStock_predicate [of product0 5 ?se number0 "[]"] f(2)
    by (simp add: setting_def)
  have l5: "lowStockLimit number0 [] = 5"
    using lowStock_predicate [of product0 5 "[]" number0 "[]"] by simp
  show ?thesis
    unfolding l17 le l5
    using lowStock_predicate [of "product0\<lparr>reorderLevel := 3, stock := 3\<rparr>" 5 "[]" number0 "[]"]
      lowStock_predicate [of "product0\<lparr>reorderLevel := 3, stock := 4\<rparr>" 5 "[]" number0 "[]"]
      lowStock_predicate [of "product0\<lparr>reorderLevel := 0, stock := 4\<rparr>" 5 "[]" number0 "[]"]
      lowStock_predicate [of "product0\<lparr>reorderLevel := 0, stock := 6\<rparr>" 5 "[]" number0 "[]"]
      lowStock_predicate [of "product0\<lparr>reorderLevel := 0, stock := 10\<rparr>" 17 "[]" number0 "[]"]
      lowStock_predicate [of "product0\<lparr>reorderLevel := 0, stock := 10\<rparr>" 5 "[]" number0 "[]"]
      count
    by simp
qed

section \<open>Checkout\<close>


lemma handleCheckout_abort:
  assumes "user s = Some u" and "distinct (map id_product lines)"
    and "shortfall lines (products s)"
  shows "handleCheckout str st_sale st_log s lines amount method = ([CheckoutStockError], s)"
  using assms by (simp add: handleCheckout_def stockError_iff)

lemma handleCheckout_commit:
  assumes "user s = Some u" and "distinct (map id_product lines)"
    and "\<not> shortfall lines (products s)"
  shows "handleCheckout str st_sale st_log s lines amount method =
           ([], logAction
                  (s\<lparr>products := map (\<lambda>p. snd (deductStock lines p)) (products s),
                     sales := newSale st_sale u lines amount method # sales s\<rparr>)
                  ''SALE_COMPLETED''
                  (''Sale ID: '' @ rnd st_sale @ '', Total: '' @ str amount) st_log)"
  using assms by (simp add: handleCheckout_def stockError_iff Let_def newSale_def)

text \<open>
  What holds of \<open>handleCheckout\<close> for the catalog products. With a user logged in and
  a cart of one line per product id: if some line asks for more than the stock of a
  catalog product with its id, the stock error is shown and the state is returned as it
  was; otherwise every catalog product with a line in the cart has its stock lowered by
  that line's quantity, every other product is as it was, and one sale, built from the
  whole cart, is put in front of the ledger. A line whose id no catalog product has is
  not looked at in either case.
\<close>

lemma handleCheckout_catalog_lines:
  assumes "user s = Some u" and "distinct (map id_product lines)"
  shows "(shortfall lines (products s) \<longrightarrow>
            handleCheckout str st_sale st_log s lines amount method = ([CheckoutStockError], s))
       \<and> (\<not> shortfall lines (products s) \<longrightarrow>
            (\<exists>s'. handleCheckout str st_sale st_log s lines amount method = ([], s')
               \<and> length (products s') = length (products s)
               \<and> (\<forall>i<length (products s). \<forall>c\<in>set lines.
                     id_product c = id_product (products s ! i) \<longrightarrow>
                     products s' ! i = (products s ! i)\<lparr>stock := stock (products s ! i) - quantity c\<rparr>)
               \<and> (\<forall>i<length (products s).
                     (\<forall>c\<in>set lines. id_product c \<noteq> id_product (products s ! i)) \<longrightarrow>
                     products s' ! i = products s ! i)
               \<and> sales s' = newSale st_sale u lines amount method # sales s
               \<and> heldSales s' = heldSales s \<and> settings s' = settings s \<and> user s' = user s))"
proof (intro conjI impI)
  assume "shortfall lines (products s)"
  then show "handleCheckout str st_sale st_log s lines amount method = ([CheckoutStockError], s)"
    using assms by (simp add: handleCheckout_abort)
next
  assume ok: "\<not> shortfall lines (products s)"
  define s' where "s' = snd (handleCheckout str st_sale st_log s lines amount method)"
  have run: "handleCheckout str st_sale st_log s lines amount method = ([], s')"
    unfolding s'_def handleCheckout_commit [OF assms ok] by simp
  have prods: "products s' = map (\<lambda>p. snd (deductStock lines p)) (products s)"
    unfolding s'_def handleCheckout_commit [OF assms ok] by simp
  have rest: "sales s' = newSale st_sale u lines amount method # sales s"
    "heldSales s' = heldSales s" "settings s' = settings s" "user s' = user s"
    unfolding s'_def handleCheckout_commit [OF assms ok] by simp_all
  have dec: "products s' ! i = (products s ! i)\<lparr>stock := stock (products s ! i) - quantity c\<rparr>"
    if "i < length (products s)" "c \<in> set lines" "id_product c = id_product (products s ! i)" for i c
  proof -
    have "products s ! i \<in> set (products s)" using that(1) by simp
    then have "\<not> stock (products s ! i) < quantity c"
      using ok that(2,3) unfolding shortfall_def by metis
    then show ?thesis
      using that(1) prods deductStock_line [OF assms(2) that(2,3)] by simp
  qed
  have keep: "products s' ! i = products s ! i"
    if "i < length (products s)" "\<forall>c\<in>set lines. id_product c \<noteq> id_product (products s ! i)" for i
    using that(1) prods deductStock_no_line [OF that(2)] by simp
  have len: "length (products s') = length (products s)"
    using prods by simp
  show "\<exists>s'. handleCheckout str st_sale st_log s lines amount method = ([], s')
               \<and> length (products s') = length (products s)
               \<and> (\<forall>i<length (products s). \<forall>c\<in>set lines.
                     id_product c = id_product (products s ! i) \<longrightarrow>
                     products s' ! i = (products s ! i)\<lparr>stock := stock (products s ! i) - quantity c\<rparr>)
               \<and> (\<forall>i<length (products s).
                     (\<forall>c\<in>set lines. id_product c \<noteq> id_product (products s ! i)) \<longrightarrow>
                     products s' ! i = products s ! i)
               \<and> sales s' = newSale st_sale u lines amount method # sales s
               \<and> heldSales s' = heldSales s \<and> settings s' = settings s \<and> user s' = user s"
    apply (rule exI [of _ s'])
    apply (intro conjI allI impI ballI)
    apply (rule run)
    apply (rule len)
    apply (erule (2) dec)
    apply (erule (1) keep)
    apply (rule rest)+
    done
qed


lemma handleCheckout_catalog_lines_example:
  "handleCheckout (\<lambda>n. []) stamp0 stamp0 app0 [cartItem product0 2, cartItem product2 2] 400 Cash
     = ([CheckoutStockError], app0)
   \<and> (\<exists>s'. handleCheckout (\<lambda>n. []) stamp0 stamp0 app0 [cartItem product0 2, cartItem product2 1] 300 Cash
            = ([], s')
          \<and> map stock (products s') = [3, 0]
          \<and> sales s' = [newSale stamp0 admin0 [cartItem product0 2, cartItem product2 1] 300 Cash])"
proof -
  have u: "user app0 = Some admin0" by (simp add: app0_def)
  have ps: "products app0 = [product0\<lparr>stock := 5\<rparr>, product2]" "sales app0 = []"
    by (simp_all add: app0_def)
  have ids: "id_product product0 = 1" "id_product product2 = 2" "stock product2 = 1"
    by (simp_all add: product0_def product2_def)
  have d: "distinct (map id_product [cartItem product0 q, cartItem product2 r])" for q r
    by (simp add: ids)
  have bad: "shortfall [cartItem product0 2, cartItem product2 2] (products app0)"
    by (simp add: shortfall_def ps ids)
  have good: "\<not> shortfall [cartItem product0 2, cartItem product2 1] (products app0)"
    by (simp add: shortfall_def ps ids)
  have a: "handleCheckout (\<lambda>n. []) stamp0 stamp0 app0 [cartItem product0 2, cartItem product2 2] 400 Cash
     = ([CheckoutStockError], app0)"
    using handleCheckout_catalog_lines [OF u d, of 2 2 "\<lambda>n. []" stamp0 stamp0 400 Cash] bad by simp
  obtain s' where s':
    "handleCheckout (\<lambda>n. []) stamp0 stamp0 app0 [cartItem product0 2, cartItem product2 1] 300 Cash = ([], s')"
    "length (products s') = length (products app0)"
    "\<forall>i<length (products app0). \<forall>c\<in>set [cartItem product0 2, cartItem product2 1].
       id_product c = id_product (products app0 ! i) \<longrightarrow>
       products s' ! i = (products app0 ! i)\<lparr>stock := stock (products app0 ! i) - quantity c\<rparr>"
    "sales s' = newSale stamp0 admin0 [cartItem product0 2, cartItem product2 1] 300 Cash # sales app0"
    using handleCheckout_catalog_lines [OF u d, of 2 1 "\<lambda>n. []" stamp0 stamp0 300 Cash] good by blast
  have p0: "products s' ! 0 = (product0\<lparr>stock := 5\<rparr>)\<lparr>stock := 5 - 2\<rparr>"
    using s'(3) [rule_format, of 0 "cartItem product0 2"] by (simp add: ps ids)
  have p1: "products s' ! 1 = product2\<lparr>stock := 1 - 1\<rparr>"
    using s'(3) [rule_format, of 1 "cartItem product2 1"] by (simp add: ps ids)
  have "length (products s') = 2" using s'(2) by (simp add: ps)
  then have l: "products s' = [products s' ! 0, products s' ! 1]"
    by (cases "products s'"; cases "tl (products s')") auto
  have "map stock (products s') = [stock (products s' ! 0), stock (products s' ! 1)]"
    by (subst l) simp
  then have "map stock (products s') = [3, 0]"
    unfolding p0 p1 by simp
  then show ?thesis using a s'(1,4) ps(2) by simp
qed



text \<open>
  C1. The claim asks that a checkout either aborts or lowers the stock of every line's
  product. The code at the scenario \<open>held_then_deleted_one_of_two\<close>: the cart holds one
  unit of product 1 and one unit of product 2, product 1 is no longer in the catalog, and
  the checkout reports success, lowers the stock of product 2 from 1 to 0 and records a
  sale of both lines, while no stock was lowered for the line of product 1.
\<close>

theorem partial_commit_after_delete:
  "(case held_then_deleted_one_of_two of
      (alerts, s, pos) \<Rightarrow>
        alerts = [TransactionSuccessful 234]
        \<and> map id_product (products s) = [2] \<and> map stock (products s) = [0]
        \<and> map (\<lambda>sl. map productId (items_sale sl)) (sales s) = [[1, 2]]
        \<and> map (\<lambda>sl. map quantity_item (items_sale sl)) (sales s) = [[1, 1]]
        \<and> cart pos = [])"
proof -
  have c1: "addToCart dateTime0 today0 False (product0\<lparr>stock := 5\<rparr>) []
              = ([], [cartItem (product0\<lparr>stock := 5\<rparr>) 1])"
    by (simp add: addToCart_def expired_def dateTime0_def today0_def product0_fields)
  have c2: "addToCart dateTime0 today0 False product2 [cartItem (product0\<lparr>stock := 5\<rparr>) 1]
              = ([], [cartItem (product0\<lparr>stock := 5\<rparr>) 1, cartItem product2 1])"
    by (simp add: addToCart_def expired_def dateTime0_def today0_def product0_fields
        product2_def)
  have t: "total_cart number0 [setting ''tax_rate'' ''17'']
             [cartItem (product0\<lparr>stock := 5\<rparr>) 1, cartItem product2 1] = 234"
    by (simp add: total_cart_def taxAmount_def subtotal_def taxRate_def settingNumber_def
        setting_def number0_def product0_fields product2_def)
  show ?thesis
    by (simp add: held_then_deleted_one_of_two_def c1 c2 t handleHold_def pos0_def app0_def
        handleHoldSale_def handleDelete_def admin0_def handleDeleteProduct_def logAction_def
        handleResume_def handleResumeSale_def handleCheckout_POS_def handleCheckout_def
        deductStock_def newSale_def saleItem_def product0_fields product2_fields Let_def)
qed
text \<open>
  C2. The claim asks that no sale holds an item for which no stock was taken from the
  catalog. The code at the scenario \<open>held_then_deleted\<close>: the checkout reports success
  and records a sale of one unit of product 1, while the catalog is empty and no stock
  was lowered anywhere.
\<close>

theorem sale_of_deleted_product:
  "(case held_then_deleted of
      (alerts, s, pos) \<Rightarrow>
        alerts = [TransactionSuccessful 117] \<and> products s = []
        \<and> map (\<lambda>sl. map productId (items_sale sl)) (sales s) = [[1]]
        \<and> map (\<lambda>sl. map quantity_item (items_sale sl)) (sales s) = [[1]])"
  by (simp add: held_then_deleted_def add_first handleHold_def pos0_def app1_def total_one
      handleHoldSale_def handleDelete_def admin0_def handleDeleteProduct_def logAction_def handleResume_def
      handleResumeSale_def handleCheckout_POS_def handleCheckout_def deductStock_def
      newSale_def saleItem_def product0_fields Let_def)


text \<open>
  C3. The claim asks that a failed commit leaves the cart as it was. The code at the
  scenario \<open>stale_checkout\<close>: the commit fails with the stock error and changes nothing
  in the application state, and the POS still announces success and empties the cart.
\<close>

theorem cart_cleared_after_failed_checkout:
  "(case stale_checkout of
      (s5, pos5, alerts, s6, pos6) \<Rightarrow>
        map stock (products s5) = [0] \<and> cart pos5 = [cartItem product0 1]
        \<and> alerts = [CheckoutStockError, TransactionSuccessful 117]
        \<and> s6 = s5 \<and> cart pos6 = [])"
  by (simp add: stale_checkout_def add_first handleHold_def pos0_def app1_def total_one
      handleHoldSale_def logAction_def handleResume_def handleResumeSale_def
      handleCheckout_POS_def handleCheckout_def deductStock_def newSale_def saleItem_def
      product0_fields Let_def)

text \<open>
  C10. Checkout looks at stock only. The alerts of \<open>handleCheckout\<close> and the stock it
  leaves are the same when the expiry dates, prescription flags and narcotic flags of
  all catalog products and all cart lines are replaced by arbitrary values. With a user
  logged in, a non-empty cart of one line per product id and sufficient stock, the
  checkout of the POS announces success without any other alert, records the sale, and
  every line that is expired, requires a prescription or is a narcotic is in that sale
  and has lowered the stock of its catalog product by its quantity.
\<close>

theorem checkout_checks_stock_only:
  assumes "user s = Some u" and "distinct (map id_product (cart pos))" and "cart pos \<noteq> []"
    and "\<not> shortfall (cart pos) (products s)"
  shows "fst (handleCheckout str st_sale st_log (s\<lparr>products := map (regate e r n) (products s)\<rparr>)
                (map (regate e' r' n') (cart pos)) amount method)
           = fst (handleCheckout str st_sale st_log s (cart pos) amount method)
       \<and> map stock (products (snd (handleCheckout str st_sale st_log
                (s\<lparr>products := map (regate e r n) (products s)\<rparr>)
                (map (regate e' r' n') (cart pos)) amount method)))
           = map stock (products (snd (handleCheckout str st_sale st_log s (cart pos) amount method)))
       \<and> (\<exists>s'. handleCheckout_POS toNumber str st_sale st_log s pos
                  = ([TransactionSuccessful (total_cart toNumber (settings s) (cart pos))], s',
                     pos\<lparr>cart := [], paymentMethod_pos := Cash, isProcessing := False\<rparr>)
              \<and> sales s' = newSale st_sale u (cart pos)
                               (total_cart toNumber (settings s) (cart pos)) (paymentMethod_pos pos)
                             # sales s
              \<and> (\<forall>c\<in>set (cart pos).
                    (expired dateTime today c \<or> requiresPrescription c \<or> isNarcotic c) \<longrightarrow>
                    saleItem c \<in> set (items_sale (hd (sales s')))
                    \<and> (\<forall>i<length (products s).
                          id_product (products s ! i) = id_product c \<longrightarrow>
                          stock (products s' ! i) = stock (products s ! i) - quantity c)))"
proof (intro conjI)
  let ?t = "total_cart toNumber (settings s) (cart pos)"
  define s' where
    "s' = logAction
            (s\<lparr>products := map (\<lambda>p. snd (deductStock (cart pos) p)) (products s),
               sales := newSale st_sale u (cart pos) ?t (paymentMethod_pos pos) # sales s\<rparr>)
            ''SALE_COMPLETED'' (''Sale ID: '' @ rnd st_sale @ '', Total: '' @ str ?t) st_log"
  have run: "handleCheckout str st_sale st_log s (cart pos) ?t (paymentMethod_pos pos) = ([], s')"
    unfolding s'_def by (rule handleCheckout_commit [OF assms(1,2,4)])
  have pos: "handleCheckout_POS toNumber str st_sale st_log s pos
                  = ([TransactionSuccessful ?t], s',
                     pos\<lparr>cart := [], paymentMethod_pos := Cash, isProcessing := False\<rparr>)"
    using assms(3) run by (simp add: handleCheckout_POS_def Let_def)
  have sl: "sales s' = newSale st_sale u (cart pos) ?t (paymentMethod_pos pos) # sales s"
    unfolding s'_def by simp
  have ps: "products s' = map (\<lambda>p. snd (deductStock (cart pos) p)) (products s)"
    unfolding s'_def by simp
  have line: "saleItem c \<in> set (items_sale (hd (sales s')))
        \<and> (\<forall>i<length (products s).
              id_product (products s ! i) = id_product c \<longrightarrow>
              stock (products s' ! i) = stock (products s ! i) - quantity c)"
    if c: "c \<in> set (cart pos)" for c
  proof (intro conjI allI impI)
    show "saleItem c \<in> set (items_sale (hd (sales s')))"
      using c by (simp add: sl newSale_def)
  next
    fix i assume i: "i < length (products s)" "id_product (products s ! i) = id_product c"
    have "products s ! i \<in> set (products s)" using i(1) by simp
    then have "\<not> stock (products s ! i) < quantity c"
      using assms(4) c i(2) unfolding shortfall_def by metis
    then show "stock (products s' ! i) = stock (products s ! i) - quantity c"
      using i ps deductStock_line [OF assms(2) c, of "products s ! i"] by simp
  qed
  show "\<exists>s'. handleCheckout_POS toNumber str st_sale st_log s pos
                  = ([TransactionSuccessful ?t], s',
                     pos\<lparr>cart := [], paymentMethod_pos := Cash, isProcessing := False\<rparr>)
              \<and> sales s' = newSale st_sale u (cart pos) ?t (paymentMethod_pos pos) # sales s
              \<and> (\<forall>c\<in>set (cart pos).
                    (expired dateTime today c \<or> requiresPrescription c \<or> isNarcotic c) \<longrightarrow>
                    saleItem c \<in> set (items_sale (hd (sales s')))
                    \<and> (\<forall>i<length (products s).
                          id_product (products s ! i) = id_product c \<longrightarrow>
                          stock (products s' ! i) = stock (products s ! i) - quantity c))"
    using pos sl line by (intro exI [of _ s']) blast
qed (rule handleCheckout_regate)+


theorem checkout_checks_stock_only_witness:
  "expired dateTime0 today0 (cartItem controlled0 1)
   \<and> requiresPrescription (cartItem controlled0 1) \<and> isNarcotic (cartItem controlled0 1)
   \<and> addToCart dateTime0 today0 True controlled0 [] = ([ExpiredBatch], [])
   \<and> (\<exists>s'. handleCheckout_POS number0 (\<lambda>n. []) stamp0 stamp0 (app1\<lparr>products := [controlled0]\<rparr>)
               (pos0\<lparr>cart := [cartItem controlled0 1]\<rparr>)
             = ([TransactionSuccessful 117], s', pos0)
          \<and> map productId (items_sale (hd (sales s'))) = [1]
          \<and> stock (products s' ! 0) = 0)"
proof -
  let ?s = "app1\<lparr>products := [controlled0]\<rparr>"
  let ?pos = "pos0\<lparr>cart := [cartItem controlled0 1]\<rparr>"
  have ex: "expired dateTime0 today0 (cartItem controlled0 1)"
    by (simp add: expired_def dateTime0_def today0_def controlled0_fields)
  have add: "addToCart dateTime0 today0 True controlled0 [] = ([ExpiredBatch], [])"
    by (simp add: addToCart_def expired_def dateTime0_def today0_def controlled0_fields)
  have u: "user ?s = Some admin0" by (simp add: app1_def)
  have c: "cart ?pos = [cartItem controlled0 1]" by simp
  have d: "distinct (map id_product (cart ?pos))" by simp
  have ne: "cart ?pos \<noteq> []" by simp
  have ok: "\<not> shortfall (cart ?pos) (products ?s)"
    by (simp add: shortfall_def controlled0_fields)
  have t: "total_cart number0 (settings ?s) (cart ?pos) = 117"
    by (simp add: total_cart_def taxAmount_def subtotal_def taxRate_def settingNumber_def
        setting_def number0_def controlled0_fields app1_def)
  have p: "?pos\<lparr>cart := [], paymentMethod_pos := Cash, isProcessing := False\<rparr> = pos0"
    by (simp add: pos0_def)
  obtain s' where s':
    "handleCheckout_POS number0 (\<lambda>n. []) stamp0 stamp0 ?s ?pos = ([TransactionSuccessful 117], s', pos0)"
    "sales s' = newSale stamp0 admin0 (cart ?pos) 117 (paymentMethod_pos ?pos) # sales ?s"
    "\<forall>c\<in>set (cart ?pos).
       (expired dateTime0 today0 c \<or> requiresPrescription c \<or> isNarcotic c) \<longrightarrow>
       saleItem c \<in> set (items_sale (hd (sales s')))
       \<and> (\<forall>i<length (products ?s).
             id_product (products ?s ! i) = id_product c \<longrightarrow>
             stock (products s' ! i) = stock (products ?s ! i) - quantity c)"
    using checkout_checks_stock_only [where toNumber = number0 and str = "\<lambda>n. []"
        and st_sale = stamp0 and st_log = stamp0 and dateTime = dateTime0 and today = today0,
        OF u d ne ok]
    unfolding t p by blast
  have "map productId (items_sale (hd (sales s'))) = [1]"
    using s'(2) by (simp add: newSale_def saleItem_def controlled0_fields)
  moreover have "stock (products s' ! 0) = 0"
    using s'(3) ex by (simp add: controlled0_fields)
  ultimately show ?thesis
    using ex add s'(1) by (simp add: controlled0_fields)
qed

text \<open>
  C4, as amended. An expired product is blocked and the cart is unchanged. A product
  that requires a prescription and whose confirmation is declined leaves the cart
  unchanged, without a message. Otherwise (not expired, and confirmed when a
  prescription is required): when the quantity of the product's only line plus 1 (or 1
  when it has no line) exceeds the product's stock, the cart is unchanged and
  "Insufficient stock!" is shown; when it does not, that line's quantity grows by 1 and
  every other line is as it was, or a new line of quantity 1 is put at the end. For a
  product of stock 1 the first add gives one line of quantity 1 and the second add
  leaves it so.
\<close>

theorem addToCart_amended:
  "(expired dateTime today p \<longrightarrow> addToCart dateTime today proceed p c = ([ExpiredBatch], c))
   \<and> (\<not> expired dateTime today p \<and> requiresPrescription p \<and> \<not> proceed \<longrightarrow>
         addToCart dateTime today proceed p c = ([], c))
   \<and> (\<not> expired dateTime today p \<and> (requiresPrescription p \<longrightarrow> proceed) \<longrightarrow>
         (\<forall>xs e ys.
             c = xs @ e # ys \<and> id_product e = id_product p
             \<and> (\<forall>x\<in>set xs. id_product x \<noteq> id_product p)
             \<and> (\<forall>y\<in>set ys. id_product y \<noteq> id_product p) \<longrightarrow>
             (if quantity e + 1 > stock p
              then snd (addToCart dateTime today proceed p c) = c
                   \<and> InsufficientStock \<in> set (fst (addToCart dateTime today proceed p c))
              else snd (addToCart dateTime today proceed p c)
                     = xs @ e\<lparr>quantity := quantity e + 1\<rparr> # ys))
         \<and> ((\<forall>x\<in>set c. id_product x \<noteq> id_product p) \<longrightarrow>
              (if 1 > stock p
               then snd (addToCart dateTime today proceed p c) = c
                    \<and> InsufficientStock \<in> set (fst (addToCart dateTime today proceed p c))
               else snd (addToCart dateTime today proceed p c) = c @ [cartItem p 1])))
   \<and> (\<not> expired dateTime today p \<and> (requiresPrescription p \<longrightarrow> proceed) \<and> stock p = 1 \<longrightarrow>
         snd (addToCart dateTime today proceed p []) = [cartItem p 1]
         \<and> snd (addToCart dateTime today proceed p
                  (snd (addToCart dateTime today proceed p []))) = [cartItem p 1])"
proof (intro conjI impI allI)
  show "addToCart dateTime today proceed p c = ([ExpiredBatch], c)" if "expired dateTime today p"
    using that by (rule addToCart_expired)
  show "addToCart dateTime today proceed p c = ([], c)"
    if "\<not> expired dateTime today p \<and> requiresPrescription p \<and> \<not> proceed"
    using that by (simp add: addToCart_declined)
next
  fix xs e ys
  assume g: "\<not> expired dateTime today p \<and> (requiresPrescription p \<longrightarrow> proceed)"
    and h: "c = xs @ e # ys \<and> id_product e = id_product p
             \<and> (\<forall>x\<in>set xs. id_product x \<noteq> id_product p)
             \<and> (\<forall>y\<in>set ys. id_product y \<noteq> id_product p)"
  show "if quantity e + 1 > stock p
        then snd (addToCart dateTime today proceed p c) = c
             \<and> InsufficientStock \<in> set (fst (addToCart dateTime today proceed p c))
        else snd (addToCart dateTime today proceed p c) = xs @ e\<lparr>quantity := quantity e + 1\<rparr> # ys"
    using addToCart_existing [of dateTime today p proceed xs ys e] g h by simp
next
  assume g: "\<not> expired dateTime today p \<and> (requiresPrescription p \<longrightarrow> proceed)"
    and h: "\<forall>x\<in>set c. id_product x \<noteq> id_product p"
  show "if 1 > stock p
        then snd (addToCart dateTime today proceed p c) = c
             \<and> InsufficientStock \<in> set (fst (addToCart dateTime today proceed p c))
        else snd (addToCart dateTime today proceed p c) = c @ [cartItem p 1]"
    using addToCart_new [of dateTime today p proceed c] g h by simp
next
  assume g: "\<not> expired dateTime today p \<and> (requiresPrescription p \<longrightarrow> proceed) \<and> stock p = 1"
  show first: "snd (addToCart dateTime today proceed p []) = [cartItem p 1]"
    using addToCart_new(1) [of dateTime today p proceed "[]"] g by simp
  show "snd (addToCart dateTime today proceed p (snd (addToCart dateTime today proceed p [])))
          = [cartItem p 1]"
    unfolding first
    using addToCart_existing(1) [of dateTime today p proceed "[]" "[]" "cartItem p 1"] g by simp
qed

theorem addToCart_amended_witness:
  "snd (addToCart dateTime0 today0 False product0 []) = [cartItem product0 1]
   \<and> snd (addToCart dateTime0 today0 False product0
            (snd (addToCart dateTime0 today0 False product0 []))) = [cartItem product0 1]
   \<and> addToCart dateTime0 today0 False rx0 [] = ([], [])
   \<and> addToCart dateTime0 today0 True controlled0 [] = ([ExpiredBatch], [])"
proof -
  have e0: "\<not> expired dateTime0 today0 product0" "\<not> expired dateTime0 today0 rx0"
    "expired dateTime0 today0 controlled0"
    by (simp_all add: expired_def dateTime0_def today0_def product0_fields rx0_def controlled0_fields)
  have r: "\<not> requiresPrescription product0" "requiresPrescription rx0" "stock product0 = 1"
    by (simp_all add: product0_fields rx0_def)
  show ?thesis
    using addToCart_amended [of dateTime0 today0 product0 False "[]"]
      addToCart_amended [of dateTime0 today0 rx0 False "[]"]
      addToCart_amended [of dateTime0 today0 controlled0 True "[]"] e0 r
    by auto
qed

text \<open>
  The claim as stated fails where the confirmation is declined: the product is not
  expired and one unit does not exceed its stock, yet no line is added.
\<close>

theorem addToCart_declined_counterexample:
  "\<not> expired dateTime0 today0 rx0 \<and> \<not> (0 + 1 > stock rx0)
   \<and> find (\<lambda>item. id_product item = id_product rx0) [] = None
   \<and> addToCart dateTime0 today0 False rx0 [] = ([], [])
   \<and> snd (addToCart dateTime0 today0 False rx0 []) \<noteq> [] @ [cartItem rx0 1]"
  by (simp add: addToCart_def expired_def dateTime0_def today0_def rx0_def product0_fields)

text \<open>
  C8. In a cart whose quantities are positive, for the only line \<open>e\<close> of product
  \<open>pid\<close> and any \<open>delta\<close> (the buttons pass 1 and -1): when the catalog has a product
  \<open>pid\<close> and the line's quantity plus \<open>delta\<close> exceeds that product's stock, the cart
  is unchanged and "Cannot exceed available stock." is shown; otherwise the line's
  quantity becomes the sum, clamped below at 0, the line is removed when that is 0,
  and no message is shown. Every other line is as it was, and a cart without a line of
  \<open>pid\<close> is unchanged.
\<close>

theorem updateQuantity_line:
  assumes "\<forall>x\<in>set xs. id_product x \<noteq> pid \<and> quantity x > 0"
    and "\<forall>y\<in>set ys. id_product y \<noteq> pid \<and> quantity y > 0"
    and "id_product e = pid" and "quantity e > 0"
  shows "(\<forall>product. find (\<lambda>p. id_product p = pid) ps = Some product
            \<and> quantity e + delta > stock product \<longrightarrow>
            updateQuantity ps pid delta (xs @ e # ys) = ([CannotExceedStock], xs @ e # ys))
       \<and> (find (\<lambda>p. id_product p = pid) ps = None
           \<or> (\<exists>product. find (\<lambda>p. id_product p = pid) ps = Some product
                  \<and> quantity e + delta \<le> stock product) \<longrightarrow>
            updateQuantity ps pid delta (xs @ e # ys)
              = ([], xs @ (if max 0 (quantity e + delta) > 0
                           then [e\<lparr>quantity := max 0 (quantity e + delta)\<rparr>] else []) @ ys))
       \<and> updateQuantity ps pid delta (xs @ ys) = ([], xs @ ys)"
proof (intro conjI allI impI)
  fix product
  assume "find (\<lambda>p. id_product p = pid) ps = Some product \<and> quantity e + delta > stock product"
  then have "updateItem ps pid delta e = ([CannotExceedStock], e)"
    using assms(3) by (simp add: updateItem_def)
  then show "updateQuantity ps pid delta (xs @ e # ys) = ([CannotExceedStock], xs @ e # ys)"
    using assms(4) by (simp add: updateQuantity_split [OF assms(1,2)])
next
  assume "find (\<lambda>p. id_product p = pid) ps = None
           \<or> (\<exists>product. find (\<lambda>p. id_product p = pid) ps = Some product
                  \<and> quantity e + delta \<le> stock product)"
  then have "updateItem ps pid delta e = ([], e\<lparr>quantity := max 0 (quantity e + delta)\<rparr>)"
    using assms(3) by (auto simp: updateItem_def)
  then show "updateQuantity ps pid delta (xs @ e # ys)
              = ([], xs @ (if max 0 (quantity e + delta) > 0
                           then [e\<lparr>quantity := max 0 (quantity e + delta)\<rparr>] else []) @ ys)"
    by (simp add: updateQuantity_split [OF assms(1,2)])
next
  have "\<forall>x\<in>set (xs @ ys). id_product x \<noteq> pid \<and> quantity x > 0"
    using assms(1,2) by auto
  then show "updateQuantity ps pid delta (xs @ ys) = ([], xs @ ys)"
    unfolding updateQuantity_def by (simp only: updateQuantity_others)
qed


theorem updateQuantity_line_witness:
  "updateQuantity [product0\<lparr>stock := 2\<rparr>] 1 1 [cartItem product0 2, cartItem product2 1]
     = ([CannotExceedStock], [cartItem product0 2, cartItem product2 1])
   \<and> updateQuantity [product0\<lparr>stock := 2\<rparr>] 1 1 [cartItem product0 1, cartItem product2 1]
     = ([], [(cartItem product0 1)\<lparr>quantity := 2\<rparr>, cartItem product2 1])
   \<and> updateQuantity [product0\<lparr>stock := 2\<rparr>] 1 (- 1) [cartItem product0 2, cartItem product2 1]
     = ([], [(cartItem product0 2)\<lparr>quantity := 1\<rparr>, cartItem product2 1])
   \<and> updateQuantity [product0\<lparr>stock := 2\<rparr>] 1 (- 1) [cartItem product0 1, cartItem product2 1]
     = ([], [cartItem product2 1])"
proof -
  have f: "find (\<lambda>p. id_product p = 1) [product0\<lparr>stock := 2\<rparr>] = Some (product0\<lparr>stock := 2\<rparr>)"
    by (simp add: product0_fields)
  have o: "\<forall>y\<in>set [cartItem product2 1]. id_product y \<noteq> 1 \<and> quantity y > 0"
    by (simp add: product2_fields)
  have n: "\<forall>x\<in>set ([] :: CartItem list). id_product x \<noteq> 1 \<and> quantity x > 0"
    by simp
  have i: "id_product (cartItem product0 q) = 1" for q
    by (simp add: product0_fields)
  have a: "updateQuantity [product0\<lparr>stock := 2\<rparr>] 1 1 [cartItem product0 2, cartItem product2 1]
     = ([CannotExceedStock], [cartItem product0 2, cartItem product2 1])"
    using updateQuantity_line [OF n o i, of 2 "[product0\<lparr>stock := 2\<rparr>]" 1] f by simp
  have b: "updateQuantity [product0\<lparr>stock := 2\<rparr>] 1 1 [cartItem product0 1, cartItem product2 1]
     = ([], [(cartItem product0 1)\<lparr>quantity := 2\<rparr>, cartItem product2 1])"
    using updateQuantity_line [OF n o i, of 1 "[product0\<lparr>stock := 2\<rparr>]" 1] f by simp
  have c: "updateQuantity [product0\<lparr>stock := 2\<rparr>] 1 (- 1) [cartItem product0 2, cartItem product2 1]
     = ([], [(cartItem product0 2)\<lparr>quantity := 1\<rparr>, cartItem product2 1])"
    using updateQuantity_line [OF n o i, of 2 "[product0\<lparr>stock := 2\<rparr>]" "- 1"] f by simp
  have d: "updateQuantity [product0\<lparr>stock := 2\<rparr>] 1 (- 1) [cartItem product0 1, cartItem product2 1]
     = ([], [cartItem product2 1])"
    using updateQuantity_line [OF n o i, of 1 "[product0\<lparr>stock := 2\<rparr>]" "- 1"] f by simp
  show ?thesis using a b c d by simp
qed

text \<open>
  C6. Holding an empty cart does nothing. Holding a non-empty cart (with a user logged
  in) shows "Sale put on hold.", empties the cart and puts in front of the registry an
  entry with the generated id and timestamp, the lines of the cart, its total and the
  default note. Resuming that entry gives back exactly the lines held, so the same
  total, and removes the entry: the registry is the one before the hold without any
  entry of the same id (the one before the hold when the id is fresh); catalog and
  ledger are as they were.
\<close>

theorem hold_resume_roundtrip:
  "(cart pos = [] \<longrightarrow> handleHold toNumber st localeTime s pos = ([], s, pos))
   \<and> (cart pos \<noteq> [] \<and> user s = Some u \<longrightarrow>
        (\<exists>s1 pos1 h s2 pos2.
            handleHold toNumber st localeTime s pos = ([SaleOnHold], s1, pos1)
          \<and> cart pos1 = [] \<and> heldSales s1 = h # heldSales s
          \<and> id_held h = rnd st \<and> date_held h = iso st \<and> items_held h = cart pos
          \<and> total_held h = total_cart toNumber (settings s) (cart pos)
          \<and> referenceNote h = Some (''Held at '' @ localeTime)
          \<and> handleResume s1 pos1 h = (s2, pos2)
          \<and> cart pos2 = cart pos
          \<and> total_cart toNumber (settings s2) (cart pos2)
                = total_cart toNumber (settings s) (cart pos)
          \<and> h \<notin> set (heldSales s2)
          \<and> heldSales s2 = filter (\<lambda>x. id_held x \<noteq> rnd st) (heldSales s)
          \<and> ((\<forall>x\<in>set (heldSales s). id_held x \<noteq> rnd st) \<longrightarrow> heldSales s2 = heldSales s)
          \<and> products s2 = products s \<and> sales s2 = sales s))"
proof (intro conjI impI)
  assume "cart pos = []"
  then show "handleHold toNumber st localeTime s pos = ([], s, pos)"
    by (simp add: handleHold_def)
next
  assume a: "cart pos \<noteq> [] \<and> user s = Some u"
  let ?t = "total_cart toNumber (settings s) (cart pos)"
  define h where
    "h = \<lparr>id_held = rnd st, date_held = iso st, items_held = cart pos, total_held = ?t,
          userId_held = id_user u, userName_held = name_user u,
          referenceNote = Some (''Held at '' @ localeTime)\<rparr>"
  define s1 where "s1 = s\<lparr>heldSales := h # heldSales s\<rparr>"
  define pos1 where "pos1 = pos\<lparr>cart := []\<rparr>"
  define s2 where "s2 = handleResumeSale s1 (id_held h)"
  define pos2 where "pos2 = pos1\<lparr>cart := items_held h, showHeldModal := False\<rparr>"
  have hold: "handleHold toNumber st localeTime s pos = ([SaleOnHold], s1, pos1)"
    using a by (simp add: handleHold_def handleHoldSale_user s1_def h_def pos1_def)
  have resume: "handleResume s1 pos1 h = (s2, pos2)"
    by (simp add: handleResume_def s2_def pos2_def)
  have hs2: "heldSales s2 = filter (\<lambda>x. id_held x \<noteq> rnd st) (heldSales s)"
    by (simp add: s2_def s1_def h_def)
  have fresh: "heldSales s2 = heldSales s" if "\<forall>x\<in>set (heldSales s). id_held x \<noteq> rnd st"
    unfolding hs2 using that by (simp add: filter_id_conv)
  have gone: "h \<notin> set (heldSales s2)"
    unfolding hs2 by (simp add: h_def)
  show "\<exists>s1 pos1 h s2 pos2.
            handleHold toNumber st localeTime s pos = ([SaleOnHold], s1, pos1)
          \<and> cart pos1 = [] \<and> heldSales s1 = h # heldSales s
          \<and> id_held h = rnd st \<and> date_held h = iso st \<and> items_held h = cart pos
          \<and> total_held h = total_cart toNumber (settings s) (cart pos)
          \<and> referenceNote h = Some (''Held at '' @ localeTime)
          \<and> handleResume s1 pos1 h = (s2, pos2)
          \<and> cart pos2 = cart pos
          \<and> total_cart toNumber (settings s2) (cart pos2)
                = total_cart toNumber (settings s) (cart pos)
          \<and> h \<notin> set (heldSales s2)
          \<and> heldSales s2 = filter (\<lambda>x. id_held x \<noteq> rnd st) (heldSales s)
          \<and> ((\<forall>x\<in>set (heldSales s). id_held x \<noteq> rnd st) \<longrightarrow> heldSales s2 = heldSales s)
          \<and> products s2 = products s \<and> sales s2 = sales s"
    apply (rule exI [of _ s1], rule exI [of _ pos1], rule exI [of _ h], rule exI [of _ s2],
        rule exI [of _ pos2])
    apply (intro conjI impI)
                  apply (rule hold)
                 apply (simp add: pos1_def)
                apply (simp add: s1_def)
               apply (simp add: h_def)
              apply (simp add: h_def)
             apply (simp add: h_def)
            apply (simp add: h_def)
           apply (simp add: h_def)
          apply (rule resume)
         apply (simp add: pos2_def h_def)
        apply (simp add: pos2_def h_def s2_def s1_def)
       apply (rule gone)
      apply (rule hs2)
     apply (erule fresh)
    apply (simp add: s2_def s1_def)
    apply (simp add: s2_def s1_def)
    done
qed


theorem hold_resume_roundtrip_witness:
  "handleHold number0 stamp0 ''10:00:00 AM'' app1 pos0 = ([], app1, pos0)
   \<and> (\<exists>s1 pos1.
          handleHold number0 stamp0 ''10:00:00 AM'' app1 (pos0\<lparr>cart := [cartItem product0 1]\<rparr>)
            = ([SaleOnHold], s1, pos1)
        \<and> cart pos1 = []
        \<and> map id_held (heldSales s1) = [''k3j9x2m1q'']
        \<and> map total_held (heldSales s1) = [117]
        \<and> cart (snd (handleResume s1 pos1 (hd (heldSales s1)))) = [cartItem product0 1]
        \<and> heldSales (fst (handleResume s1 pos1 (hd (heldSales s1)))) = [])"
proof -
  let ?pos = "pos0\<lparr>cart := [cartItem product0 1]\<rparr>"
  have e: "cart pos0 = []" by (simp add: pos0_def)
  have ne: "cart ?pos \<noteq> [] \<and> user app1 = Some admin0" by (simp add: app1_def)
  have hs: "heldSales app1 = []" "settings app1 = [setting ''tax_rate'' ''17'']"
    by (simp_all add: app1_def)
  have first: "handleHold number0 stamp0 ''10:00:00 AM'' app1 pos0 = ([], app1, pos0)"
    using hold_resume_roundtrip [of pos0 number0 stamp0 "''10:00:00 AM''" app1 admin0] e
    by simp
  obtain s1 pos1 h s2 pos2 where r:
    "handleHold number0 stamp0 ''10:00:00 AM'' app1 ?pos = ([SaleOnHold], s1, pos1)"
    "cart pos1 = []" "heldSales s1 = h # heldSales app1" "id_held h = rnd stamp0"
    "total_held h = total_cart number0 (settings app1) (cart ?pos)"
    "handleResume s1 pos1 h = (s2, pos2)" "cart pos2 = cart ?pos"
    "heldSales s2 = filter (\<lambda>x. id_held x \<noteq> rnd stamp0) (heldSales app1)"
    using hold_resume_roundtrip [of ?pos number0 stamp0 "''10:00:00 AM''" app1 admin0] ne
    by blast
  have i: "map id_held (heldSales s1) = [''k3j9x2m1q'']"
    using r(3,4) by (simp add: hs stamp0_def)
  have t: "map total_held (heldSales s1) = [117]"
    using r(3,5) by (simp add: hs total_one)
  have c: "cart (snd (handleResume s1 pos1 (hd (heldSales s1)))) = [cartItem product0 1]"
    using r(3,6,7) by simp
  have g: "heldSales (fst (handleResume s1 pos1 (hd (heldSales s1)))) = []"
    using r(3,6,8) by (simp add: hs)
  show ?thesis
    apply (rule conjI)
     apply (rule first)
    apply (rule exI [of _ s1])
    apply (rule exI [of _ pos1])
    apply (intro conjI)
         apply (rule r(1))
        apply (rule r(2))
       apply (rule i)
      apply (rule t)
     apply (rule c)
    apply (rule g)
    done
qed

text \<open>
  C7. Resume by id is \<open>handleResumeSale\<close>. For an id that no entry of the registry has,
  it returns the state as it was: the missing entry is a no-op, and nothing can crash.
  Resuming an entry of the registry makes its lines the cart and changes the registry:
  afterwards the entry is gone and no entry has its id, so the list it was chosen from
  offers it no more, and a second resume of the same id finds nothing and returns the
  state as it was. Entries of another id are kept.
\<close>

theorem resume_at_most_once:
  "((\<forall>h\<in>set (heldSales s). id_held h \<noteq> hid) \<longrightarrow> handleResumeSale s hid = s)
   \<and> (held \<in> set (heldSales s) \<longrightarrow>
         cart (snd (handleResume s pos held)) = items_held held
         \<and> fst (handleResume s pos held) \<noteq> s
         \<and> held \<notin> set (heldSales (fst (handleResume s pos held)))
         \<and> (\<forall>h\<in>set (heldSales (fst (handleResume s pos held))). id_held h \<noteq> id_held held)
         \<and> handleResumeSale (fst (handleResume s pos held)) (id_held held)
             = fst (handleResume s pos held))
   \<and> (\<forall>h\<in>set (heldSales s).
         id_held h \<noteq> id_held held \<longrightarrow> h \<in> set (heldSales (fst (handleResume s pos held))))
   \<and> handleResumeSale (handleResumeSale s hid) hid = handleResumeSale s hid
   \<and> heldSales (handleResumeSale s hid) = filter (\<lambda>h. id_held h \<noteq> hid) (heldSales s)
   \<and> products (handleResumeSale s hid) = products s \<and> sales (handleResumeSale s hid) = sales s"
proof (intro conjI impI)
  show "handleResumeSale s hid = s" if "\<forall>h\<in>set (heldSales s). id_held h \<noteq> hid"
    using that by (rule handleResumeSale_unknown)
  show "handleResumeSale (handleResumeSale s hid) hid = handleResumeSale s hid"
    by (rule handleResumeSale_unknown) simp
  show "handleResumeSale (fst (handleResume s pos held)) (id_held held)
          = fst (handleResume s pos held)"
    by (rule handleResumeSale_unknown) simp
  show "fst (handleResume s pos held) \<noteq> s" if "held \<in> set (heldSales s)"
  proof
    assume "fst (handleResume s pos held) = s"
    then have "heldSales (fst (handleResume s pos held)) = heldSales s" by simp
    then have "filter (\<lambda>h. id_held h \<noteq> id_held held) (heldSales s) = heldSales s" by simp
    then have "\<forall>h\<in>set (heldSales s). id_held h \<noteq> id_held held"
      by (simp only: filter_id_conv)
    then have "id_held held \<noteq> id_held held" using that by (rule bspec)
    then show False by simp
  qed
qed simp_all

theorem resume_at_most_once_witness:
  "handleResumeSale app1 ''h7f3k2p9a'' = app1
   \<and> cart (snd (handleResume (app1\<lparr>heldSales := [held0]\<rparr>) pos0 held0)) = [cartItem product0 1]
   \<and> heldSales (fst (handleResume (app1\<lparr>heldSales := [held0]\<rparr>) pos0 held0)) = []
   \<and> handleResumeSale (fst (handleResume (app1\<lparr>heldSales := [held0]\<rparr>) pos0 held0)) ''h7f3k2p9a''
       = fst (handleResume (app1\<lparr>heldSales := [held0]\<rparr>) pos0 held0)"
proof -
  let ?s = "app1\<lparr>heldSales := [held0]\<rparr>"
  have hs: "heldSales app1 = []" by (simp add: app1_def)
  have h: "id_held held0 = ''h7f3k2p9a''" "items_held held0 = [cartItem product0 1]"
    by (simp_all add: held0_def)
  have m: "held0 \<in> set (heldSales ?s)" by simp
  have a: "handleResumeSale app1 ''h7f3k2p9a'' = app1"
    using resume_at_most_once [of app1 "''h7f3k2p9a''" held0 pos0] hs by simp
  have b: "cart (snd (handleResume ?s pos0 held0)) = items_held held0"
    "\<forall>x\<in>set (heldSales (fst (handleResume ?s pos0 held0))). id_held x \<noteq> id_held held0"
    "handleResumeSale (fst (handleResume ?s pos0 held0)) (id_held held0)
       = fst (handleResume ?s pos0 held0)"
    using resume_at_most_once [of ?s "''h7f3k2p9a''" held0 pos0] m by blast+
  have e: "heldSales (fst (handleResume ?s pos0 held0)) = []"
    using b(2) by simp
  show ?thesis
    apply (intro conjI)
       apply (rule a)
      apply (simp only: b(1) h(2))
     apply (rule e)
    apply (rule b(3) [unfolded h(1)])
    done
qed
end
